theory Spec2Isabelle
  imports Main
begin

section \<open>JavaScript values as the order controller uses them\<close>

text \<open>
  The controller (src/unnamed/part_001, orderController.js) receives parsed JSON in
  \<^verbatim>\<open>req.body\<close>, reads properties, spreads objects into fresh literals and tests
  values for truthiness. Objects are association lists in insertion order; numbers are
  integers (no claim depends on fractions).
\<close>

datatype jsval =
    JUndefined
  | JNull
  | JBool bool
  | JNum int
  | JStr string
  | JArr "jsval list"
  | JObj "(string \<times> jsval) list"

type_synonym obj = "(string \<times> jsval) list"

text \<open>
  A thrown value is any JavaScript value (\<^verbatim>\<open>throw null\<close> is legal). An
  \<^verbatim>\<open>Error\<close> object is represented by its \<^verbatim>\<open>message\<close>, the one property the
  catch blocks read.
\<close>

type_synonym exn = jsval

definition js_error :: "string \<Rightarrow> exn" where
  "js_error m = JObj [(''message'', JStr m)]"

text \<open>\<^verbatim>\<open>!v\<close> is \<open>\<not> truthy v\<close>.\<close>

fun truthy :: "jsval \<Rightarrow> bool" where
  "truthy JUndefined = False"
| "truthy JNull = False"
| "truthy (JBool b) = b"
| "truthy (JNum n) = (n \<noteq> 0)"
| "truthy (JStr s) = (s \<noteq> [])"
| "truthy (JArr xs) = True"
| "truthy (JObj kvs) = True"

text \<open>\<^verbatim>\<open>typeof v === 'object' && v !== null\<close>\<close>

fun is_object :: "jsval \<Rightarrow> bool" where
  "is_object (JArr xs) = True"
| "is_object (JObj kvs) = True"
| "is_object v = False"

text \<open>
  \<^verbatim>\<open>v.k\<close> for the property names the controller reads. Reading a property of
  \<^verbatim>\<open>undefined\<close> or \<^verbatim>\<open>null\<close> throws a TypeError; a missing property is
  \<^verbatim>\<open>undefined\<close>; arrays and strings have a \<^verbatim>\<open>length\<close>.
\<close>

fun get_prop :: "jsval \<Rightarrow> string \<Rightarrow> exn + jsval" where
  "get_prop JUndefined k =
     Inl (js_error (''Cannot read properties of undefined (reading '' @ [CHR 0x27] @ k @ [CHR 0x27] @ '')''))"
| "get_prop JNull k =
     Inl (js_error (''Cannot read properties of null (reading '' @ [CHR 0x27] @ k @ [CHR 0x27] @ '')''))"
| "get_prop (JObj kvs) k = Inr (case map_of kvs k of None \<Rightarrow> JUndefined | Some v \<Rightarrow> v)"
| "get_prop (JArr xs) k = Inr (if k = ''length'' then JNum (int (length xs)) else JUndefined)"
| "get_prop (JStr s) k = Inr (if k = ''length'' then JNum (int (length s)) else JUndefined)"
| "get_prop v k = Inr JUndefined"

text \<open>\<^verbatim>\<open>o.k = v\<close> on an object literal: an existing key keeps its place.\<close>

fun set_prop :: "obj \<Rightarrow> string \<Rightarrow> jsval \<Rightarrow> obj" where
  "set_prop [] k v = [(k, v)]"
| "set_prop ((k', v') # kvs) k v =
     (if k' = k then (k, v) # kvs else (k', v') # set_prop kvs k v)"

text \<open>
  \<^verbatim>\<open>delete v[k]\<close>: throws on \<^verbatim>\<open>undefined\<close> and \<^verbatim>\<open>null\<close>, removes the key from
  an object, and leaves every other value as it is (\<open>k\<close> is never an array index here).
\<close>

fun delete_prop :: "jsval \<Rightarrow> string \<Rightarrow> exn + jsval" where
  "delete_prop JUndefined k = Inl (js_error ''Cannot convert undefined or null to object'')"
| "delete_prop JNull k = Inl (js_error ''Cannot convert undefined or null to object'')"
| "delete_prop (JObj kvs) k = Inr (JObj (filter (\<lambda>p. fst p \<noteq> k) kvs))"
| "delete_prop v k = Inr v"

text \<open>Decimal text of an array index, for the keys a spread array or string yields.\<close>

definition digit_char :: "nat \<Rightarrow> char" where
  "digit_char d = ''0123456789'' ! d"

fun index_key :: "nat \<Rightarrow> string" where
  "index_key n =
     (if n < 10 then [digit_char n] else index_key (n div 10) @ [digit_char (n mod 10)])"

declare index_key.simps [simp del]

text \<open>
  \<^verbatim>\<open>{ ...v }\<close>: the own enumerable properties of \<open>v\<close>. Objects give their entries,
  arrays and strings their indexed elements, everything else nothing.
\<close>

fun spread :: "jsval \<Rightarrow> obj" where
  "spread (JObj kvs) = kvs"
| "spread (JArr xs) = zip (map index_key [0..<length xs]) xs"
| "spread (JStr s) = zip (map index_key [0..<length s]) (map (\<lambda>c. JStr [c]) s)"
| "spread v = []"

section \<open>Collaborators of the controller\<close>

text \<open>
  The five envelopes of the response handler (\<^verbatim>\<open>res.success\<close>, ...). The message of
  the internal-error envelope is whatever \<^verbatim>\<open>error.message\<close> evaluates to.
\<close>

datatype response =
    Success jsval
  | ValidationError string
  | BadRequest string
  | RecordNotFound
  | InternalServerError jsval

text \<open>\<^verbatim>\<open>orderSchemaKey.schemaKeys\<close> and \<^verbatim>\<open>orderSchemaKey.updateSchemaKeys\<close>.\<close>

datatype schema = SchemaKeys | UpdateSchemaKeys

record verdict =
  isValid :: bool
  message :: string

text \<open>The calls the controller makes on \<^verbatim>\<open>dbService\<close>.\<close>

datatype db_call =
    Create obj
  | FindOne obj obj
  | Count obj
  | Paginate obj obj
  | UpdateOne obj obj

text \<open>What an operation does, in order: validator calls, store calls, responses sent.\<close>

datatype event =
    ValidatedParams jsval schema
  | ValidatedFilter jsval bool
  | Db db_call
  | Sent response

text \<open>
  The parts the controller requires from outside src/, as parameters:
  the two validators of utils/validateRequest with the schemas of
  utils/validation/orderValidation (the flag of \<open>validateFilterWithJoi\<close> says whether
  the model shape \<^verbatim>\<open>Order.schema.obj\<close> is passed), \<^verbatim>\<open>ObjectId.isValid\<close> of the
  mongodb driver, the store's query matching (query, then document), the failures of the
  store (the value thrown when the call fails in the given store), the identity the store
  assigns to a new document, and the page size used when the options give none.
\<close>

record env =
  validateParamsWithJoi :: "jsval \<Rightarrow> schema \<Rightarrow> verdict"
  validateFilterWithJoi :: "jsval \<Rightarrow> bool \<Rightarrow> verdict"
  isValidObjectId :: "jsval \<Rightarrow> bool"
  matches :: "obj \<Rightarrow> obj \<Rightarrow> bool"
  db_fault :: "obj list \<Rightarrow> db_call \<Rightarrow> exn option"
  new_id :: "obj list \<Rightarrow> jsval"
  default_limit :: nat

text \<open>
  The request as the controller reads it: \<^verbatim>\<open>req.body\<close>, \<^verbatim>\<open>req.params.id\<close> and
  \<^verbatim>\<open>req.user\<close>.
\<close>

record request =
  body :: jsval
  params_id :: jsval
  user :: jsval

record world =
  req :: request
  store :: "obj list"
  trace :: "event list"

section \<open>Computations that may throw\<close>

text \<open>
  A computation runs on the world and on the response object \<^verbatim>\<open>res\<close> of the request
  in hand, of which one thing matters: whether an envelope has been sent on it already.
\<close>

type_synonym 'a prog = "world \<times> bool \<Rightarrow> (exn + 'a) \<times> world \<times> bool"

definition ret :: "'a \<Rightarrow> 'a prog" where
  "ret x s = (Inr x, s)"

definition bind :: "'a prog \<Rightarrow> ('a \<Rightarrow> 'b prog) \<Rightarrow> 'b prog" where
  "bind m f s = (case m s of (Inl e, s') \<Rightarrow> (Inl e, s') | (Inr x, s') \<Rightarrow> f x s')"

definition lift :: "exn + 'a \<Rightarrow> 'a prog" where
  "lift r s = (r, s)"

definition get_req :: "request prog" where
  "get_req = (\<lambda>(w, sent). (Inr (req w), (w, sent)))"

definition set_body :: "jsval \<Rightarrow> unit prog" where
  "set_body b = (\<lambda>(w, sent). (Inr (), (w\<lparr>req := (req w)\<lparr>body := b\<rparr>\<rparr>, sent)))"

definition log :: "event \<Rightarrow> world \<Rightarrow> world" where
  "log ev w = w\<lparr>trace := trace w @ [ev]\<rparr>"

text \<open>
  Modelled from the spec: the response handler that gives \<^verbatim>\<open>res\<close> its methods is
  missing; section 6 has every response be one of the five envelopes. The envelope is
  written to the HTTP response, which takes one: a call on a response that has been
  sent throws (Node's \<^verbatim>\<open>ERR_HTTP_HEADERS_SENT\<close>) and writes nothing.
\<close>

definition headers_sent :: exn where
  "headers_sent = js_error ''Cannot set headers after they are sent to the client''"

definition send :: "response \<Rightarrow> unit prog" where
  "send r = (\<lambda>(w, sent).
     if sent then (Inl headers_sent, (w, sent)) else (Inr (), (log (Sent r) w, True)))"

text \<open>\<^verbatim>\<open>try { m } catch (error) { h error }\<close>\<close>

definition try_catch :: "'a prog \<Rightarrow> (exn \<Rightarrow> 'a prog) \<Rightarrow> 'a prog" where
  "try_catch m h s = (case m s of (Inl e, s') \<Rightarrow> h e s' | (Inr x, s') \<Rightarrow> (Inr x, s'))"

text \<open>
  The router calls an operation with the request and a response on which nothing has
  been sent; what the operation returns (or throws) and the world it leaves are what
  can be seen of the call.
\<close>

definition serve :: "unit prog \<Rightarrow> world \<Rightarrow> (exn + unit) \<times> world" where
  "serve m w = (case m (w, False) of (r, (w', sent)) \<Rightarrow> (r, w'))"

definition validateParams :: "env \<Rightarrow> jsval \<Rightarrow> schema \<Rightarrow> verdict prog" where
  "validateParams env v sch = (\<lambda>(w, sent).
     (Inr (validateParamsWithJoi env v sch), (log (ValidatedParams v sch) w, sent)))"

definition validateFilter :: "env \<Rightarrow> jsval \<Rightarrow> bool \<Rightarrow> verdict prog" where
  "validateFilter env v hint = (\<lambda>(w, sent).
     (Inr (validateFilterWithJoi env v hint), (log (ValidatedFilter v hint) w, sent)))"

section \<open>The data-access helper\<close>

text \<open>
  utils/dbService and model/order are not in src/; the controller only calls them. The
  definitions of this section follow the contract that section 4.2 of the specification
  gives for the helper, on a store that is the list of its documents.
\<close>

text \<open>Modelled from the spec: model/order is missing; a resource document is schema-less
  at runtime (section 3), so \<^verbatim>\<open>new Order(d)\<close> keeps the fields of \<open>d\<close>.\<close>

definition new_Order :: "obj \<Rightarrow> obj" where
  "new_Order d = d"

text \<open>Modelled from the spec: utils/dbService is missing; \<open>updateOne\<close> "applies patch
  fields" to a document: each field of the patch is set, in order.\<close>

definition assign :: "obj \<Rightarrow> obj \<Rightarrow> obj" where
  "assign d patch = foldl (\<lambda>acc p. set_prop acc (fst p) (snd p)) d patch"

text \<open>Modelled from the spec: utils/dbService is missing; \<open>updateOne\<close> patches "the first
  document matching query" and returns it, or nothing "if zero documents matched".\<close>

fun update_first :: "(obj \<Rightarrow> bool) \<Rightarrow> obj \<Rightarrow> obj list \<Rightarrow> obj option \<times> obj list" where
  "update_first P patch [] = (None, [])"
| "update_first P patch (d # ds) =
     (if P d then (Some (assign d patch), assign d patch # ds)
      else (case update_first P patch ds of (r, ds') \<Rightarrow> (r, d # ds')))"

text \<open>Modelled from the spec: utils/dbService is missing; \<open>paginate\<close> honours \<open>page\<close>
  (1-based), \<open>limit\<close> and \<open>pagination\<close>, and "when pagination is disabled, returns all
  matches unpaginated".\<close>

definition page_of :: "env \<Rightarrow> obj \<Rightarrow> obj list \<Rightarrow> obj list" where
  "page_of env options ds =
     (if map_of options ''pagination'' = Some (JBool False) then ds
      else
        let page = (case map_of options ''page'' of Some (JNum p) \<Rightarrow> p | _ \<Rightarrow> 1);
            limit = (case map_of options ''limit'' of Some (JNum l) \<Rightarrow> nat l | _ \<Rightarrow> default_limit env)
        in take limit (drop (nat (page - 1) * limit) ds))"

text \<open>Modelled from the spec: utils/dbService is missing; \<open>create\<close> inserts one document
  and returns it with its assigned identity; \<open>findOne\<close> returns the first matching
  document or a not-found sentinel (\<^verbatim>\<open>null\<close>); \<open>count\<close> returns the number of matching
  documents; \<open>paginate\<close> returns \<^verbatim>\<open>{data, totalRecords}\<close> (the paging metadata, which no
  controller path reads, is left out); \<open>updateOne\<close> returns the updated document or the
  sentinel. The result is the returned value and the store afterwards.\<close>

fun db_exec :: "env \<Rightarrow> db_call \<Rightarrow> obj list \<Rightarrow> jsval \<times> obj list" where
  "db_exec env (Create d) ds =
     (let stored = set_prop d ''_id'' (new_id env ds) in (JObj stored, ds @ [stored]))"
| "db_exec env (FindOne q options) ds =
     (case find (matches env q) ds of None \<Rightarrow> (JNull, ds) | Some d \<Rightarrow> (JObj d, ds))"
| "db_exec env (Count q) ds = (JNum (int (length (filter (matches env q) ds))), ds)"
| "db_exec env (Paginate q options) ds =
     (let found = filter (matches env q) ds in
      (JObj [(''data'', JArr (map JObj (page_of env options found))),
             (''totalRecords'', JNum (int (length found)))], ds))"
| "db_exec env (UpdateOne q patch) ds =
     (case update_first (matches env q) patch ds of
        (None, ds') \<Rightarrow> (JNull, ds')
      | (Some d, ds') \<Rightarrow> (JObj d, ds'))"

text \<open>Modelled from the spec: utils/dbService is missing; a call
  \<^verbatim>\<open>await dbService.f(Order, ...)\<close> either fails (constraint violation, connectivity
  loss), which throws and leaves the store as it was, or runs as above. The call is
  recorded in the trace either way.\<close>

definition dbService :: "env \<Rightarrow> db_call \<Rightarrow> jsval prog" where
  "dbService env c = (\<lambda>(w, sent).
     case db_fault env (store w) c of
       Some thrown \<Rightarrow> (Inl thrown, (log (Db c) w, sent))
     | None \<Rightarrow>
         (case db_exec env c (store w) of
            (v, ds') \<Rightarrow> (Inr v, ((log (Db c) w)\<lparr>store := ds'\<rparr>, sent))))"

section \<open>The controller operations\<close>

text \<open>
  Each operation is the body of its \<^verbatim>\<open>try\<close> block (\<open>_try\<close>) inside the
  \<^verbatim>\<open>catch\<close> that every operation shares. The handler reads
  \<^verbatim>\<open>error.message\<close>, which throws when the value caught is \<^verbatim>\<open>null\<close> or
  \<^verbatim>\<open>undefined\<close>, and then calls \<^verbatim>\<open>res.internalServerError\<close>, which throws when an
  envelope has been sent; what the handler throws leaves the operation.
\<close>

definition on_error :: "exn \<Rightarrow> unit prog" where
  "on_error error =
     bind (lift (get_prop error ''message'')) (\<lambda>m.
     send (InternalServerError m))"

definition addOrder_try :: "env \<Rightarrow> unit prog" where
  "addOrder_try env =
     bind get_req (\<lambda>r.
     let dataToCreate = spread (if truthy (body r) then body r else JObj []) in
     bind (validateParams env (JObj dataToCreate) SchemaKeys) (\<lambda>validateRequest.
     if \<not> isValid validateRequest then
       send (ValidationError (''Invalid values in parameters, '' @ message validateRequest))
     else
       bind (lift (get_prop (user r) ''id'')) (\<lambda>uid.
       let dataToCreate = new_Order (set_prop dataToCreate ''addedBy'' uid) in
       bind (dbService env (Create dataToCreate)) (\<lambda>createdOrder.
       send (Success createdOrder)))))"

definition addOrder :: "env \<Rightarrow> world \<Rightarrow> (exn + unit) \<times> world" where
  "addOrder env = serve (try_catch (addOrder_try env) on_error)"

text \<open>
  \<^verbatim>\<open>!foundOrders || !foundOrders.data || !foundOrders.data.length\<close>, evaluated left
  to right with short-circuiting.
\<close>

definition no_data :: "jsval \<Rightarrow> exn + bool" where
  "no_data foundOrders =
     (if \<not> truthy foundOrders then Inr True
      else case get_prop foundOrders ''data'' of
             Inl e \<Rightarrow> Inl e
           | Inr d \<Rightarrow>
               if \<not> truthy d then Inr True
               else (case get_prop d ''length'' of
                       Inl e \<Rightarrow> Inl e
                     | Inr l \<Rightarrow> Inr (\<not> truthy l)))"

text \<open>
  Lines 55-57, 58 and 62-64 of the controller: the query, the count-only flag and the
  options that \<^verbatim>\<open>findAllOrder\<close> derives from \<^verbatim>\<open>req.body\<close>. The guard of the
  options starts with \<^verbatim>\<open>req.body &&\<close>, so a falsy body is not read there.
\<close>

definition query_of :: "jsval \<Rightarrow> exn + obj" where
  "query_of b =
     (case get_prop b ''query'' of
        Inl e \<Rightarrow> Inl e
      | Inr q \<Rightarrow> Inr (if is_object q then spread q else []))"

definition count_only :: "jsval \<Rightarrow> exn + bool" where
  "count_only b =
     (case get_prop b ''isCountOnly'' of Inl e \<Rightarrow> Inl e | Inr c \<Rightarrow> Inr (truthy c))"

definition options_of :: "jsval \<Rightarrow> exn + obj" where
  "options_of b =
     (if \<not> truthy b then Inr []
      else case get_prop b ''options'' of
             Inl e \<Rightarrow> Inl e
           | Inr opts \<Rightarrow> Inr (if is_object opts then spread opts else []))"

definition findAllOrder_try :: "env \<Rightarrow> unit prog" where
  "findAllOrder_try env =
     bind get_req (\<lambda>r.
     bind (validateFilter env (body r) True) (\<lambda>validateRequest.
     if \<not> isValid validateRequest then
       send (ValidationError (message validateRequest))
     else
       bind (lift (query_of (body r))) (\<lambda>query.
       bind (lift (count_only (body r))) (\<lambda>isCountOnly.
       if isCountOnly then
         bind (dbService env (Count query)) (\<lambda>totalRecords.
         send (Success (JObj [(''totalRecords'', totalRecords)])))
       else
         bind (lift (options_of (body r))) (\<lambda>options.
         bind (dbService env (Paginate query options)) (\<lambda>foundOrders.
         bind (lift (no_data foundOrders)) (\<lambda>empty.
         if empty then send RecordNotFound else send (Success foundOrders))))))))"

definition findAllOrder :: "env \<Rightarrow> world \<Rightarrow> (exn + unit) \<times> world" where
  "findAllOrder env = serve (try_catch (findAllOrder_try env) on_error)"

definition getOrder_try :: "env \<Rightarrow> unit prog" where
  "getOrder_try env =
     bind get_req (\<lambda>r.
     if \<not> isValidObjectId env (params_id r) then
       send (ValidationError ''invalid objectId.'')
     else
       let query = [(''_id'', params_id r)]; options = [] in
       bind (dbService env (FindOne query options)) (\<lambda>foundOrder.
       if \<not> truthy foundOrder then send RecordNotFound else send (Success foundOrder)))"

definition getOrder :: "env \<Rightarrow> world \<Rightarrow> (exn + unit) \<times> world" where
  "getOrder env = serve (try_catch (getOrder_try env) on_error)"

text \<open>Lines 116-118: the filter that \<^verbatim>\<open>getOrderCount\<close> derives from \<^verbatim>\<open>req.body\<close>.\<close>

definition where_of :: "jsval \<Rightarrow> exn + obj" where
  "where_of b =
     (case get_prop b ''where'' of
        Inl e \<Rightarrow> Inl e
      | Inr wh \<Rightarrow> Inr (if is_object wh then spread wh else []))"

definition getOrderCount_try :: "env \<Rightarrow> unit prog" where
  "getOrderCount_try env =
     bind get_req (\<lambda>r.
     bind (validateFilter env (body r) False) (\<lambda>validateRequest.
     if \<not> isValid validateRequest then
       send (ValidationError (message validateRequest))
     else
       bind (lift (where_of (body r))) (\<lambda>where'.
       bind (dbService env (Count where')) (\<lambda>countedOrder.
       send (Success (JObj [(''count'', countedOrder)]))))))"

definition getOrderCount :: "env \<Rightarrow> world \<Rightarrow> (exn + unit) \<times> world" where
  "getOrderCount env = serve (try_catch (getOrderCount_try env) on_error)"

definition updateOrder_try :: "env \<Rightarrow> unit prog" where
  "updateOrder_try env =
     bind get_req (\<lambda>r.
     bind (lift (get_prop (user r) ''id'')) (\<lambda>uid.
     let dataToUpdate = set_prop (spread (body r)) ''updatedBy'' uid in
     bind (validateParams env (JObj dataToUpdate) UpdateSchemaKeys) (\<lambda>validateRequest.
     if \<not> isValid validateRequest then
       send (ValidationError (''Invalid values in parameters, '' @ message validateRequest))
     else
       let query = [(''_id'', params_id r)] in
       bind (dbService env (UpdateOne query dataToUpdate)) (\<lambda>updatedOrder.
       if \<not> truthy updatedOrder then send RecordNotFound else send (Success updatedOrder)))))"

definition updateOrder :: "env \<Rightarrow> world \<Rightarrow> (exn + unit) \<times> world" where
  "updateOrder env = serve (try_catch (updateOrder_try env) on_error)"

text \<open>
  The \<^verbatim>\<open>badRequest\<close> branch has no \<^verbatim>\<open>return\<close>: the statements after it run
  whether or not it was taken, on a response that has its envelope if it was. \<^verbatim>\<open>delete req.body['addedBy']\<close> changes the request
  object itself, and the spread that follows reads the changed body.
\<close>

definition partialUpdateOrder_try :: "env \<Rightarrow> unit prog" where
  "partialUpdateOrder_try env =
     bind get_req (\<lambda>r.
     bind (if \<not> truthy (params_id r) then
             send (BadRequest ''Insufficient request parameters! id is required.'')
           else ret ()) (\<lambda>_.
     bind (lift (delete_prop (body r) ''addedBy'')) (\<lambda>b.
     bind (set_body b) (\<lambda>_.
     bind (lift (get_prop (user r) ''id'')) (\<lambda>uid.
     let dataToUpdate = set_prop (spread b) ''updatedBy'' uid in
     bind (validateParams env (JObj dataToUpdate) UpdateSchemaKeys) (\<lambda>validateRequest.
     if \<not> isValid validateRequest then
       send (ValidationError (''Invalid values in parameters, '' @ message validateRequest))
     else
       let query = [(''_id'', params_id r)] in
       bind (dbService env (UpdateOne query dataToUpdate)) (\<lambda>updatedOrder.
       if \<not> truthy updatedOrder then send RecordNotFound else send (Success updatedOrder))))))))"

definition partialUpdateOrder :: "env \<Rightarrow> world \<Rightarrow> (exn + unit) \<times> world" where
  "partialUpdateOrder env = serve (try_catch (partialUpdateOrder_try env) on_error)"

text \<open>The responses an operation has sent, in order.\<close>

fun responses :: "event list \<Rightarrow> response list" where
  "responses [] = []"
| "responses (Sent r # evs) = r # responses evs"
| "responses (ev # evs) = responses evs"

text \<open>The calls an operation has made on the store, in order.\<close>

fun db_calls :: "event list \<Rightarrow> db_call list" where
  "db_calls [] = []"
| "db_calls (Db c # evs) = c # db_calls evs"
| "db_calls (ev # evs) = db_calls evs"

section \<open>Properties of computations\<close>

text \<open>
  A computation preserves a property of the world and the response when every run from
  a state that has it ends in one that has it, thrown or not. A computation is unsent on
  throw when, started on a response without an envelope, it can only throw while the
  response is still without one. \<open>partial_tail\<close> names the statements of
  \<open>partialUpdateOrder\<close> after the deletion (lines 168-184).
\<close>

definition preserves :: "(world \<times> bool \<Rightarrow> bool) \<Rightarrow> 'a prog \<Rightarrow> bool" where
  "preserves I m = (\<forall>s. I s \<longrightarrow> I (snd (m s)))"


abbreviation partial_tail :: "env \<Rightarrow> request \<Rightarrow> jsval \<Rightarrow> unit prog" where
  "partial_tail env r b \<equiv>
     bind (lift (get_prop (user r) ''id'')) (\<lambda>uid.
     let dataToUpdate = set_prop (spread b) ''updatedBy'' uid in
     bind (validateParams env (JObj dataToUpdate) UpdateSchemaKeys) (\<lambda>validateRequest.
     if \<not> isValid validateRequest then
       send (ValidationError (''Invalid values in parameters, '' @ message validateRequest))
     else
       let query = [(''_id'', params_id r)] in
       bind (dbService env (UpdateOne query dataToUpdate)) (\<lambda>updatedOrder.
       if \<not> truthy updatedOrder then send RecordNotFound else send (Success updatedOrder))))"

section \<open>A concrete deployment\<close>

text \<open>
  Queries of field equalities, a creation schema that requires \<open>total\<close>, an update schema
  that requires nothing, identities of 24 characters, and a store that answers.
\<close>

definition eq_matches :: "obj \<Rightarrow> obj \<Rightarrow> bool" where
  "eq_matches q d = list_all (\<lambda>p. map_of d (fst p) = Some (snd p)) q"

definition accepted :: verdict where
  "accepted = \<lparr>isValid = True, message = []\<rparr>"

definition sample_env :: env where
  "sample_env =
     \<lparr>validateParamsWithJoi =
        (\<lambda>v s. if s = SchemaKeys \<and> get_prop v ''total'' = Inr JUndefined
               then \<lparr>isValid = False, message = ''total is required''\<rparr>
               else accepted),
      validateFilterWithJoi = (\<lambda>v hint. accepted),
      isValidObjectId = (\<lambda>v. case v of JStr s \<Rightarrow> length s = 24 | _ \<Rightarrow> False),
      matches = eq_matches,
      db_fault = (\<lambda>ds c. None),
      new_id = (\<lambda>ds. JStr (''00000000000000000000000'' @ index_key (length ds))),
      default_limit = 10\<rparr>"

definition offline_env :: env where
  "offline_env = sample_env\<lparr>db_fault := (\<lambda>ds c. Some (js_error ''connection lost''))\<rparr>"

text \<open>A store whose driver rejects with \<^verbatim>\<open>null\<close>.\<close>

definition null_env :: env where
  "null_env = sample_env\<lparr>db_fault := (\<lambda>ds c. Some JNull)\<rparr>"

definition alice :: jsval where
  "alice = JObj [(''id'', JStr ''alice'')]"

definition order1 :: obj where
  "order1 = [(''total'', JNum 5), (''addedBy'', JStr ''bob''), (''_id'', JStr ''000000000000000000000000'')]"

definition world_of :: "jsval \<Rightarrow> jsval \<Rightarrow> obj list \<Rightarrow> world" where
  "world_of b i ds = \<lparr>req = \<lparr>body = b, params_id = i, user = alice\<rparr>, store = ds, trace = []\<rparr>"

section \<open>Basic facts\<close>

lemmas prog_defs = bind_def ret_def lift_def get_req_def set_body_def send_def log_def
  try_catch_def serve_def validateParams_def validateFilter_def dbService_def on_error_def

lemmas sample_defs = sample_env_def offline_env_def null_env_def accepted_def world_of_def alice_def
  order1_def eq_matches_def

lemma responses_append: "responses (xs @ ys) = responses xs @ responses ys"
  by (induction xs rule: responses.induct) simp_all

lemma map_of_set_prop: "map_of (set_prop kvs k v) = (map_of kvs)(k \<mapsto> v)"
  by (induction kvs k v rule: set_prop.induct) (auto simp: fun_eq_iff)

lemma keys_set_prop: "fst ` set (set_prop kvs k v) = insert k (fst ` set kvs)"
  by (induction kvs k v rule: set_prop.induct) auto

lemma page_of_Nil: "page_of env options [] = []"
  by (simp add: page_of_def Let_def)

subsection \<open>Rules for computations\<close>




lemma preservesD: "preserves I m \<Longrightarrow> I s \<Longrightarrow> I (snd (m s))"
  unfolding preserves_def by blast

lemma preserves_ret: "preserves I (ret x)"
  by (simp add: preserves_def ret_def)

lemma preserves_lift: "preserves I (lift r)"
  by (simp add: preserves_def lift_def)

lemma preserves_get_req: "preserves I get_req"
  by (simp add: preserves_def get_req_def split: prod.splits)

lemma preserves_bind:
  assumes "preserves I m" and "\<And>x. preserves I (f x)"
  shows "preserves I (bind m f)"
  unfolding preserves_def
proof (intro allI impI)
  fix s assume "I s"
  with assms(1) have 1: "I (snd (m s))" by (rule preservesD)
  show "I (snd (bind m f s))"
  proof -
    obtain r s' where Pair: "m s = (r, s')"
      by (cases "m s") auto
    with 1 have s': "I s'" by simp
    show ?thesis
    proof (cases r)
      case (Inl e)
      with Pair s' show ?thesis by (simp add: bind_def)
    next
      case (Inr x)
      with Pair preservesD [OF assms(2) s', of x] show ?thesis by (simp add: bind_def)
    qed
  qed
qed

lemma preserves_bind_lift:
  assumes "\<And>x. r = Inr x \<Longrightarrow> preserves I (f x)"
  shows "preserves I (bind (lift r) f)"
proof (cases r)
  case (Inl e)
  then show ?thesis by (simp add: preserves_def bind_def lift_def)
next
  case (Inr x)
  with assms [OF Inr] show ?thesis by (simp add: preserves_def bind_def lift_def)
qed

lemma preserves_try_catch:
  assumes "preserves I m" and "\<And>e. preserves I (h e)"
  shows "preserves I (try_catch m h)"
  unfolding preserves_def
proof (intro allI impI)
  fix s assume "I s"
  with assms(1) have 1: "I (snd (m s))" by (rule preservesD)
  show "I (snd (try_catch m h s))"
  proof -
    obtain r s' where Pair: "m s = (r, s')"
      by (cases "m s") auto
    with 1 have s': "I s'" by simp
    show ?thesis
    proof (cases r)
      case (Inl e)
      with Pair preservesD [OF assms(2) s', of e] show ?thesis by (simp add: try_catch_def)
    next
      case (Inr x)
      with Pair s' show ?thesis by (simp add: try_catch_def)
    qed
  qed
qed

lemma preserves_if:
  "(c \<Longrightarrow> preserves I a) \<Longrightarrow> (\<not> c \<Longrightarrow> preserves I b) \<Longrightarrow> preserves I (if c then a else b)"
  by simp

lemma preserves_send:
  assumes "\<And>w. I (w, False) \<Longrightarrow> I (log (Sent r) w, True)"
  shows "preserves I (send r)"
  using assms by (auto simp: preserves_def send_def)

lemma preserves_set_body:
  assumes "\<And>w sent. I (w, sent) \<Longrightarrow> I (w\<lparr>req := (req w)\<lparr>body := b\<rparr>\<rparr>, sent)"
  shows "preserves I (set_body b)"
  using assms by (auto simp: preserves_def set_body_def)

lemma preserves_validateParams:
  assumes "\<And>w sent. I (w, sent) \<Longrightarrow> I (log (ValidatedParams v sch) w, sent)"
  shows "preserves I (validateParams env v sch)"
  using assms by (auto simp: preserves_def validateParams_def)

lemma preserves_validateFilter:
  assumes "\<And>w sent. I (w, sent) \<Longrightarrow> I (log (ValidatedFilter v hint) w, sent)"
  shows "preserves I (validateFilter env v hint)"
  using assms by (auto simp: preserves_def validateFilter_def)

lemma preserves_dbService:
  assumes "\<And>w sent. I (w, sent) \<Longrightarrow> I (log (Db c) w, sent)"
    and "\<And>w sent. I (w, sent) \<Longrightarrow>
           I ((log (Db c) w)\<lparr>store := snd (db_exec env c (store w))\<rparr>, sent)"
  shows "preserves I (dbService env c)"
  using assms by (auto simp: preserves_def dbService_def case_prod_beta split: option.splits)

lemma preserves_on_error:
  assumes "\<And>w r. I (w, False) \<Longrightarrow> I (log (Sent r) w, True)"
  shows "preserves I (on_error e)"
  unfolding on_error_def
  by (intro preserves_bind preserves_lift preserves_send assms)

lemmas preserves_intros = preserves_ret preserves_lift preserves_get_req preserves_bind
  preserves_try_catch preserves_if preserves_send preserves_set_body preserves_validateParams
  preserves_validateFilter preserves_dbService


lemma snd_serve: "snd (serve m w) = fst (snd (m (w, False)))"
  by (simp add: serve_def split: prod.splits)

lemma bind_get_req: "bind get_req f (w, sent) = f (req w) (w, sent)"
  by (simp add: bind_def get_req_def)

lemma bind_ret: "bind (ret x) f s = f x s"
  by (simp add: bind_def ret_def)

lemma bind_lift_Inr: "bind (lift (Inr x)) f s = f x s"
  by (simp add: bind_def lift_def)

lemma bind_lift_Inl: "bind (lift (Inl e)) f s = (Inl e, s)"
  by (simp add: bind_def lift_def)

lemma bind_set_body:
  "bind (set_body b) f (w, sent) = f () (w\<lparr>req := (req w)\<lparr>body := b\<rparr>\<rparr>, sent)"
  by (simp add: bind_def set_body_def)

lemma bind_send_unsent: "bind (send r) f (w, False) = f () (log (Sent r) w, True)"
  by (simp add: bind_def send_def)

lemmas bind_steps = bind_get_req bind_ret bind_lift_Inr bind_lift_Inl bind_set_body
  bind_send_unsent

lemma partialUpdateOrder_try_prefix:
  assumes "delete_prop (body (req w)) ''addedBy'' = Inr b"
  shows "partialUpdateOrder_try env (w, False) =
           partial_tail env (req w) b
             ((if \<not> truthy (params_id (req w))
               then log (Sent (BadRequest ''Insufficient request parameters! id is required.'')) w
               else w)\<lparr>req := (req w)\<lparr>body := b\<rparr>\<rparr>,
              \<not> truthy (params_id (req w)))"
proof (cases "truthy (params_id (req w))")
  case True
  with assms show ?thesis
    by (simp add: partialUpdateOrder_try_def bind_steps)
next
  case False
  with assms show ?thesis
    by (simp add: partialUpdateOrder_try_def bind_steps log_def)
qed

section \<open>Create\<close>

text \<open>
  C8. A create request whose payload fails schema validation gets the validation-error
  envelope, and nothing is persisted: the operation ends in the world it started in, with
  the validator call and that one response added to the trace - no store call, no change
  of the store.
\<close>

theorem addOrder_invalid_not_persisted:
  assumes "\<not> isValid (validateParamsWithJoi env
             (JObj (spread (if truthy (body (req w)) then body (req w) else JObj []))) SchemaKeys)"
  shows "addOrder env w =
           (Inr (), w\<lparr>trace := trace w @
              [ValidatedParams
                 (JObj (spread (if truthy (body (req w)) then body (req w) else JObj [])))
                 SchemaKeys,
               Sent (ValidationError (''Invalid values in parameters, '' @
                 message (validateParamsWithJoi env
                   (JObj (spread (if truthy (body (req w)) then body (req w) else JObj [])))
                   SchemaKeys)))]\<rparr>)"
  using assms by (simp add: addOrder_def addOrder_try_def prog_defs Let_def)

theorem addOrder_invalid_not_persisted_witness:
  "\<not> isValid (validateParamsWithJoi sample_env (JObj [(''addedBy'', JStr ''eve'')]) SchemaKeys) \<and>
   addOrder sample_env (world_of (JObj [(''addedBy'', JStr ''eve'')]) JUndefined [order1]) =
     (Inr (), \<lparr>req = \<lparr>body = JObj [(''addedBy'', JStr ''eve'')], params_id = JUndefined,
                      user = alice\<rparr>,
               store = [order1],
               trace = [ValidatedParams (JObj [(''addedBy'', JStr ''eve'')]) SchemaKeys,
                        Sent (ValidationError
                          ''Invalid values in parameters, total is required'')]\<rparr>)"
proof -
  have h: "\<not> isValid (validateParamsWithJoi sample_env
             (JObj (spread
                (if truthy (body (req (world_of (JObj [(''addedBy'', JStr ''eve'')]) JUndefined [order1])))
                 then body (req (world_of (JObj [(''addedBy'', JStr ''eve'')]) JUndefined [order1]))
                 else JObj []))) SchemaKeys)"
    by (simp add: sample_env_def world_of_def accepted_def)
  show ?thesis
    using h addOrder_invalid_not_persisted [OF h]
    by (simp add: sample_env_def world_of_def accepted_def)
qed

text \<open>
  C4. Whenever a create request succeeds - the operation sends the success envelope with
  the created document - the user's identity was readable, the store has gained exactly
  that one document, and its \<open>addedBy\<close> is \<^verbatim>\<open>req.user.id\<close>, whatever the body said.
\<close>

theorem addOrder_stamps_addedBy:
  assumes "addOrder env w = (r, w')"
    and "responses (trace w') = responses (trace w) @ [Success created]"
  shows "\<exists>doc uid. get_prop (user (req w)) ''id'' = Inr uid \<and> created = JObj doc \<and>
           store w' = store w @ [doc] \<and> get_prop (JObj doc) ''addedBy'' = Inr uid"
  using assms
  by (auto simp: addOrder_def addOrder_try_def prog_defs Let_def responses_append
      new_Order_def map_of_set_prop split: if_split_asm sum.split_asm option.split_asm)

theorem addOrder_stamps_addedBy_witness:
  "addOrder sample_env (world_of (JObj [(''total'', JNum 7), (''addedBy'', JStr ''eve'')]) JUndefined []) =
     (Inr (),
      \<lparr>req = \<lparr>body = JObj [(''total'', JNum 7), (''addedBy'', JStr ''eve'')],
              params_id = JUndefined, user = alice\<rparr>,
       store = [[(''total'', JNum 7), (''addedBy'', JStr ''alice''),
                 (''_id'', JStr ''000000000000000000000000'')]],
       trace = [ValidatedParams (JObj [(''total'', JNum 7), (''addedBy'', JStr ''eve'')]) SchemaKeys,
                Db (Create [(''total'', JNum 7), (''addedBy'', JStr ''alice'')]),
                Sent (Success (JObj [(''total'', JNum 7), (''addedBy'', JStr ''alice''),
                                     (''_id'', JStr ''000000000000000000000000'')]))]\<rparr>) \<and>
   (\<exists>doc uid. get_prop alice ''id'' = Inr uid \<and>
      store (snd (addOrder sample_env
        (world_of (JObj [(''total'', JNum 7), (''addedBy'', JStr ''eve'')]) JUndefined []))) = [doc] \<and>
      get_prop (JObj doc) ''addedBy'' = Inr uid)"
proof -
  let ?w = "world_of (JObj [(''total'', JNum 7), (''addedBy'', JStr ''eve'')]) JUndefined []"
  let ?doc = "[(''total'', JNum 7), (''addedBy'', JStr ''alice''),
                 (''_id'', JStr ''000000000000000000000000'')]"
  let ?w' = "\<lparr>req = \<lparr>body = JObj [(''total'', JNum 7), (''addedBy'', JStr ''eve'')],
              params_id = JUndefined, user = alice\<rparr>,
       store = [?doc],
       trace = [ValidatedParams (JObj [(''total'', JNum 7), (''addedBy'', JStr ''eve'')]) SchemaKeys,
                Db (Create [(''total'', JNum 7), (''addedBy'', JStr ''alice'')]),
                Sent (Success (JObj ?doc))]\<rparr>"
  have run: "addOrder sample_env ?w = (Inr (), ?w')"
    by (simp add: addOrder_def addOrder_try_def prog_defs Let_def new_Order_def sample_defs
        index_key.simps digit_char_def)
  have sent: "responses (trace ?w') = responses (trace ?w) @ [Success (JObj ?doc)]"
    by (simp add: world_of_def)
  from addOrder_stamps_addedBy [OF run sent] run show ?thesis
    by (simp add: world_of_def)
qed

section \<open>List and count\<close>

text \<open>
  C1. A list request that passes filter validation, does not ask for the count only, and
  whose query matches no stored document (the store answering the paginate call) gets the
  record-not-found envelope as its only response, not a success envelope.
\<close>

theorem findAllOrder_empty_is_not_found:
  assumes "isValid (validateFilterWithJoi env (body (req w)) True)"
    and "query_of (body (req w)) = Inr query"
    and "count_only (body (req w)) = Inr False"
    and "options_of (body (req w)) = Inr options"
    and "db_fault env (store w) (Paginate query options) = None"
    and "filter (matches env query) (store w) = []"
  shows "findAllOrder env w =
           (Inr (), w\<lparr>trace := trace w @
              [ValidatedFilter (body (req w)) True, Db (Paginate query options), Sent RecordNotFound]\<rparr>)"
  using assms
  by (simp add: findAllOrder_def findAllOrder_try_def prog_defs Let_def page_of_Nil no_data_def)

theorem findAllOrder_empty_is_not_found_witness:
  "findAllOrder sample_env (world_of (JObj [(''query'', JObj [(''total'', JNum 9)])]) JUndefined [order1]) =
     (Inr (),
      \<lparr>req = \<lparr>body = JObj [(''query'', JObj [(''total'', JNum 9)])], params_id = JUndefined,
              user = alice\<rparr>,
       store = [order1],
       trace = [ValidatedFilter (JObj [(''query'', JObj [(''total'', JNum 9)])]) True,
                Db (Paginate [(''total'', JNum 9)] []), Sent RecordNotFound]\<rparr>)"
proof -
  let ?b = "JObj [(''query'', JObj [(''total'', JNum 9)])]"
  let ?w = "world_of ?b JUndefined [order1]"
  have 1: "isValid (validateFilterWithJoi sample_env (body (req ?w)) True)"
    by (simp add: sample_defs)
  have 2: "query_of (body (req ?w)) = Inr [(''total'', JNum 9)]"
    by (simp add: sample_defs query_of_def)
  have 3: "count_only (body (req ?w)) = Inr False"
    by (simp add: sample_defs count_only_def)
  have 4: "options_of (body (req ?w)) = Inr []"
    by (simp add: sample_defs options_of_def)
  have 5: "db_fault sample_env (store ?w) (Paginate [(''total'', JNum 9)] []) = None"
    by (simp add: sample_defs)
  have 6: "filter (matches sample_env [(''total'', JNum 9)]) (store ?w) = []"
    by (simp add: sample_defs)
  show ?thesis
    using findAllOrder_empty_is_not_found [OF 1 2 3 4 5 6]
    by (simp add: world_of_def)
qed

text \<open>
  C7. A list request that passes filter validation and has \<open>isCountOnly\<close> set (the store
  answering the count call) gets one success envelope holding only \<open>totalRecords\<close>; the
  only store call is the count, so no paginate call is made.
\<close>

theorem findAllOrder_count_only:
  assumes "isValid (validateFilterWithJoi env (body (req w)) True)"
    and "query_of (body (req w)) = Inr query"
    and "count_only (body (req w)) = Inr True"
    and "db_fault env (store w) (Count query) = None"
  shows "findAllOrder env w =
           (Inr (), w\<lparr>trace := trace w @
              [ValidatedFilter (body (req w)) True, Db (Count query),
               Sent (Success (JObj [(''totalRecords'',
                        JNum (int (length (filter (matches env query) (store w)))))]))]\<rparr>)"
  using assms
  by (simp add: findAllOrder_def findAllOrder_try_def prog_defs Let_def)

theorem findAllOrder_count_only_witness:
  "findAllOrder sample_env
     (world_of (JObj [(''query'', JObj [(''total'', JNum 5)]), (''isCountOnly'', JBool True)])
        JUndefined [order1]) =
     (Inr (),
      \<lparr>req = \<lparr>body = JObj [(''query'', JObj [(''total'', JNum 5)]), (''isCountOnly'', JBool True)],
              params_id = JUndefined, user = alice\<rparr>,
       store = [order1],
       trace = [ValidatedFilter
                  (JObj [(''query'', JObj [(''total'', JNum 5)]), (''isCountOnly'', JBool True)]) True,
                Db (Count [(''total'', JNum 5)]),
                Sent (Success (JObj [(''totalRecords'', JNum 1)]))]\<rparr>)"
proof -
  let ?b = "JObj [(''query'', JObj [(''total'', JNum 5)]), (''isCountOnly'', JBool True)]"
  let ?w = "world_of ?b JUndefined [order1]"
  have 1: "isValid (validateFilterWithJoi sample_env (body (req ?w)) True)"
    by (simp add: sample_defs)
  have 2: "query_of (body (req ?w)) = Inr [(''total'', JNum 5)]"
    by (simp add: sample_defs query_of_def)
  have 3: "count_only (body (req ?w)) = Inr True"
    by (simp add: sample_defs count_only_def)
  have 4: "db_fault sample_env (store ?w) (Count [(''total'', JNum 5)]) = None"
    by (simp add: sample_defs)
  show ?thesis
    using findAllOrder_count_only [OF 1 2 3 4]
    by (simp add: sample_defs)
qed

text \<open>
  C6. A count request that passes filter validation and whose filter matches no stored
  document (the store answering the count call) gets the success envelope with
  \<open>count\<close> 0.
\<close>

theorem getOrderCount_zero:
  assumes "isValid (validateFilterWithJoi env (body (req w)) False)"
    and "where_of (body (req w)) = Inr where'"
    and "db_fault env (store w) (Count where') = None"
    and "filter (matches env where') (store w) = []"
  shows "getOrderCount env w =
           (Inr (), w\<lparr>trace := trace w @
              [ValidatedFilter (body (req w)) False, Db (Count where'),
               Sent (Success (JObj [(''count'', JNum 0)]))]\<rparr>)"
  using assms
  by (simp add: getOrderCount_def getOrderCount_try_def prog_defs Let_def)

theorem getOrderCount_zero_witness:
  "getOrderCount sample_env
     (world_of (JObj [(''where'', JObj [(''total'', JNum 9)])]) JUndefined [order1]) =
     (Inr (),
      \<lparr>req = \<lparr>body = JObj [(''where'', JObj [(''total'', JNum 9)])], params_id = JUndefined,
              user = alice\<rparr>,
       store = [order1],
       trace = [ValidatedFilter (JObj [(''where'', JObj [(''total'', JNum 9)])]) False,
                Db (Count [(''total'', JNum 9)]),
                Sent (Success (JObj [(''count'', JNum 0)]))]\<rparr>)"
proof -
  let ?b = "JObj [(''where'', JObj [(''total'', JNum 9)])]"
  let ?w = "world_of ?b JUndefined [order1]"
  have 1: "isValid (validateFilterWithJoi sample_env (body (req ?w)) False)"
    by (simp add: sample_defs)
  have 2: "where_of (body (req ?w)) = Inr [(''total'', JNum 9)]"
    by (simp add: sample_defs where_of_def)
  have 3: "db_fault sample_env (store ?w) (Count [(''total'', JNum 9)]) = None"
    by (simp add: sample_defs)
  have 4: "filter (matches sample_env [(''total'', JNum 9)]) (store ?w) = []"
    by (simp add: sample_defs)
  show ?thesis
    using getOrderCount_zero [OF 1 2 3 4]
    by (simp add: world_of_def)
qed

section \<open>Get by id\<close>

text \<open>
  C5. \<open>getOrder\<close> answers a malformed identity with the validation-error envelope and
  makes no store call; a well-formed identity that matches no document with the
  record-not-found envelope; and a well-formed identity that matches with the success
  envelope holding the first matching document (the store answering the findOne call in
  the last two cases).
\<close>

theorem getOrder_cases:
  "(\<not> isValidObjectId env (params_id (req w)) \<longrightarrow>
      getOrder env w =
        (Inr (), w\<lparr>trace := trace w @ [Sent (ValidationError ''invalid objectId.'')]\<rparr>)) \<and>
   (isValidObjectId env (params_id (req w)) \<and>
    db_fault env (store w) (FindOne [(''_id'', params_id (req w))] []) = None \<and>
    find (matches env [(''_id'', params_id (req w))]) (store w) = None \<longrightarrow>
      getOrder env w =
        (Inr (), w\<lparr>trace := trace w @
           [Db (FindOne [(''_id'', params_id (req w))] []), Sent RecordNotFound]\<rparr>)) \<and>
   (isValidObjectId env (params_id (req w)) \<and>
    db_fault env (store w) (FindOne [(''_id'', params_id (req w))] []) = None \<and>
    find (matches env [(''_id'', params_id (req w))]) (store w) = Some d \<longrightarrow>
      getOrder env w =
        (Inr (), w\<lparr>trace := trace w @
           [Db (FindOne [(''_id'', params_id (req w))] []), Sent (Success (JObj d))]\<rparr>))"
  by (simp add: getOrder_def getOrder_try_def prog_defs Let_def)

theorem getOrder_cases_witness:
  "responses (trace (snd (getOrder sample_env (world_of JUndefined (JStr ''zz'') [order1])))) =
     [ValidationError ''invalid objectId.''] \<and>
   db_calls (trace (snd (getOrder sample_env (world_of JUndefined (JStr ''zz'') [order1])))) = [] \<and>
   responses (trace (snd (getOrder sample_env
      (world_of JUndefined (JStr ''000000000000000000000001'') [order1])))) = [RecordNotFound] \<and>
   responses (trace (snd (getOrder sample_env
      (world_of JUndefined (JStr ''000000000000000000000000'') [order1])))) = [Success (JObj order1)]"
proof -
  let ?w1 = "world_of JUndefined (JStr ''zz'') [order1]"
  let ?w2 = "world_of JUndefined (JStr ''000000000000000000000001'') [order1]"
  let ?w3 = "world_of JUndefined (JStr ''000000000000000000000000'') [order1]"
  have a: "\<not> isValidObjectId sample_env (params_id (req ?w1))"
    by (simp add: sample_defs)
  have b: "isValidObjectId sample_env (params_id (req ?w2)) \<and>
    db_fault sample_env (store ?w2) (FindOne [(''_id'', params_id (req ?w2))] []) = None \<and>
    find (matches sample_env [(''_id'', params_id (req ?w2))]) (store ?w2) = None"
    by (simp add: sample_defs)
  have c: "isValidObjectId sample_env (params_id (req ?w3)) \<and>
    db_fault sample_env (store ?w3) (FindOne [(''_id'', params_id (req ?w3))] []) = None \<and>
    find (matches sample_env [(''_id'', params_id (req ?w3))]) (store ?w3) = Some order1"
    by (simp add: sample_defs)
  from a getOrder_cases [of sample_env ?w1 order1]
  have 1: "getOrder sample_env ?w1 =
        (Inr (), ?w1\<lparr>trace := trace ?w1 @ [Sent (ValidationError ''invalid objectId.'')]\<rparr>)"
    by blast
  from b getOrder_cases [of sample_env ?w2 order1]
  have 2: "getOrder sample_env ?w2 =
        (Inr (), ?w2\<lparr>trace := trace ?w2 @
           [Db (FindOne [(''_id'', params_id (req ?w2))] []), Sent RecordNotFound]\<rparr>)"
    by blast
  from c getOrder_cases [of sample_env ?w3 order1]
  have 3: "getOrder sample_env ?w3 =
        (Inr (), ?w3\<lparr>trace := trace ?w3 @
           [Db (FindOne [(''_id'', params_id (req ?w3))] []), Sent (Success (JObj order1))]\<rparr>)"
    by blast
  show ?thesis
    unfolding 1 2 3 by (simp add: world_of_def)
qed

section \<open>Update\<close>

text \<open>
  C2. The full update does not keep \<open>addedBy\<close>: \<open>updateOrder\<close> spreads the whole body
  into the patch, so with a schema that lets the field through, the stored document's
  \<open>addedBy\<close> changes from \<open>bob\<close> to the client's \<open>mallory\<close>.
\<close>

theorem updateOrder_overwrites_addedBy:
  "updateOrder sample_env
     (world_of (JObj [(''total'', JNum 6), (''addedBy'', JStr ''mallory'')])
        (JStr ''000000000000000000000000'') [order1]) =
     (Inr (),
      \<lparr>req = \<lparr>body = JObj [(''total'', JNum 6), (''addedBy'', JStr ''mallory'')],
              params_id = JStr ''000000000000000000000000'', user = alice\<rparr>,
       store = [[(''total'', JNum 6), (''addedBy'', JStr ''mallory''),
                 (''_id'', JStr ''000000000000000000000000''), (''updatedBy'', JStr ''alice'')]],
       trace = [ValidatedParams
                  (JObj [(''total'', JNum 6), (''addedBy'', JStr ''mallory''),
                         (''updatedBy'', JStr ''alice'')]) UpdateSchemaKeys,
                Db (UpdateOne [(''_id'', JStr ''000000000000000000000000'')]
                      [(''total'', JNum 6), (''addedBy'', JStr ''mallory''),
                       (''updatedBy'', JStr ''alice'')]),
                Sent (Success (JObj [(''total'', JNum 6), (''addedBy'', JStr ''mallory''),
                  (''_id'', JStr ''000000000000000000000000''),
                  (''updatedBy'', JStr ''alice'')]))]\<rparr>)"
  by (simp add: updateOrder_def updateOrder_try_def prog_defs Let_def sample_defs assign_def)

text \<open>
  The partial update does keep it: the patch is built from the body after the deletion,
  so it never has an \<open>addedBy\<close> key, and every stored document keeps the value it had.
\<close>

lemma digit_char_range: "d < 10 \<Longrightarrow> digit_char d \<in> set ''0123456789''"
  unfolding digit_char_def by (rule nth_mem) simp

lemma index_key_digits: "set (index_key n) \<subseteq> set ''0123456789''"
proof (induction n rule: index_key.induct)
  case (1 n)
  show ?case
  proof (cases "n < 10")
    case True
    then show ?thesis using digit_char_range [of n] by (subst index_key.simps) simp
  next
    case False
    have "digit_char (n mod 10) \<in> set ''0123456789''"
      by (rule digit_char_range) simp
    with False 1 show ?thesis by (subst index_key.simps) simp
  qed
qed

lemma index_key_not_addedBy: "index_key n \<noteq> ''addedBy''"
proof
  assume "index_key n = ''addedBy''"
  then have "CHR ''a'' \<in> set (index_key n)" by simp
  with index_key_digits [of n] show False by auto
qed

lemma index_keys_not_addedBy: "''addedBy'' \<notin> fst ` set (zip (map index_key ns) vs)"
proof
  assume "''addedBy'' \<in> fst ` set (zip (map index_key ns) vs)"
  then obtain v where "(''addedBy'', v) \<in> set (zip (map index_key ns) vs)"
    by (auto simp: image_iff)
  then have "''addedBy'' \<in> set (map index_key ns)"
    by (rule set_zip_leftD)
  then obtain n where "index_key n = ''addedBy''"
    by (auto simp: image_iff)
  with index_key_not_addedBy show False
    by blast
qed

lemma spread_delete_no_addedBy:
  assumes "delete_prop b ''addedBy'' = Inr b'"
  shows "''addedBy'' \<notin> fst ` set (spread b')"
proof (cases b)
  case (JArr xs)
  with assms have "spread b' = zip (map index_key [0..<length xs]) xs"
    by auto
  then show ?thesis
    by (simp only: index_keys_not_addedBy not_False_eq_True)
next
  case (JStr s)
  with assms have "spread b' = zip (map index_key [0..<length s]) (map (\<lambda>c. JStr [c]) s)"
    by auto
  then show ?thesis
    by (simp only: index_keys_not_addedBy not_False_eq_True)
next
  case (JObj kvs)
  with assms have "spread b' = filter (\<lambda>p. fst p \<noteq> ''addedBy'') kvs"
    by auto
  then show ?thesis
    by (auto simp: image_iff)
qed (use assms in auto)

lemma assign_keeps_other_keys:
  "k \<notin> fst ` set patch \<Longrightarrow> map_of (assign d patch) k = map_of d k"
  unfolding assign_def
  by (induction patch arbitrary: d) (auto simp: map_of_set_prop)

lemma update_first_keeps_other_keys:
  assumes "k \<notin> fst ` set patch"
  shows "map (\<lambda>d. map_of d k) (snd (update_first P patch ds)) = map (\<lambda>d. map_of d k) ds"
  using assms
  by (induction ds) (auto simp: assign_keeps_other_keys split: prod.splits)

lemma db_exec_update_keeps_other_keys:
  assumes "k \<notin> fst ` set patch"
  shows "map (\<lambda>d. map_of d k) (snd (db_exec env (UpdateOne q patch) ds)) = map (\<lambda>d. map_of d k) ds"
proof -
  obtain r ds' where u: "update_first (matches env q) patch ds = (r, ds')"
    by (cases "update_first (matches env q) patch ds") auto
  from update_first_keeps_other_keys [OF assms, of "matches env q" ds] u
  have "map (\<lambda>d. map_of d k) ds' = map (\<lambda>d. map_of d k) ds" by simp
  with u show ?thesis
    by (cases r) simp_all
qed

lemma partialUpdateOrder_try_keeps_addedBy:
  "preserves (\<lambda>s. map (\<lambda>d. map_of d ''addedBy'') (store (fst s)) = v)
     (try_catch (partialUpdateOrder_try env) on_error)"
  unfolding partialUpdateOrder_try_def Let_def
  by (intro preserves_bind_lift preserves_intros preserves_on_error)
    (auto simp del: db_exec.simps simp: log_def db_exec_update_keeps_other_keys keys_set_prop
      dest!: spread_delete_no_addedBy)

lemma partialUpdateOrder_keeps_addedBy:
  "map (\<lambda>d. map_of d ''addedBy'') (store (snd (partialUpdateOrder env w))) =
   map (\<lambda>d. map_of d ''addedBy'') (store w)"
  unfolding partialUpdateOrder_def snd_serve
  by (rule preservesD [OF partialUpdateOrder_try_keeps_addedBy]) simp






lemma partial_tail_keeps_req:
  "preserves (\<lambda>s. req (fst s) = r0) (try_catch (partial_tail env r b) on_error)"
  unfolding Let_def
  by (intro preserves_intros preserves_on_error) (simp_all add: log_def)

text \<open>
  C10. When the body of a partial-update request is an object with an \<open>addedBy\<close> key,
  the request that the operation leaves behind has that key removed from its body (and
  nothing else), so the body is no longer the one that came in.
\<close>

theorem partialUpdateOrder_strips_request_body:
  assumes "body (req w) = JObj kvs" and "''addedBy'' \<in> fst ` set kvs"
  shows "body (req (snd (partialUpdateOrder env w))) = JObj (filter (\<lambda>p. fst p \<noteq> ''addedBy'') kvs) \<and>
         get_prop (body (req (snd (partialUpdateOrder env w)))) ''addedBy'' = Inr JUndefined \<and>
         body (req (snd (partialUpdateOrder env w))) \<noteq> body (req w)"
proof -
  let ?b = "JObj (filter (\<lambda>p. fst p \<noteq> ''addedBy'') kvs)"
  let ?s1 = "((if \<not> truthy (params_id (req w))
               then log (Sent (BadRequest ''Insufficient request parameters! id is required.'')) w
               else w)\<lparr>req := (req w)\<lparr>body := ?b\<rparr>\<rparr>,
              \<not> truthy (params_id (req w)))"
  have del: "delete_prop (body (req w)) ''addedBy'' = Inr ?b"
    using assms(1) by simp
  have run: "snd (partialUpdateOrder env w) =
             fst (snd (try_catch (partial_tail env (req w) ?b) on_error ?s1))"
    unfolding partialUpdateOrder_def snd_serve
    by (simp only: try_catch_def partialUpdateOrder_try_prefix [OF del])
  have "req (fst (snd (try_catch (partial_tail env (req w) ?b) on_error ?s1))) = req (fst ?s1)"
    by (rule preservesD [OF partial_tail_keeps_req]) simp
  with run have 1: "body (req (snd (partialUpdateOrder env w))) = ?b"
    by simp
  have 2: "map_of (filter (\<lambda>p. fst p \<noteq> ''addedBy'') kvs) ''addedBy'' = None"
    by (auto simp: map_of_eq_None_iff)
  have 3: "filter (\<lambda>p. fst p \<noteq> ''addedBy'') kvs \<noteq> kvs"
  proof
    assume "filter (\<lambda>p. fst p \<noteq> ''addedBy'') kvs = kvs"
    then have "\<forall>x\<in>set kvs. fst x \<noteq> ''addedBy''"
      by (simp only: filter_id_conv)
    with assms(2) show False
      by (auto simp: image_iff)
  qed
  show ?thesis using 1 2 3 assms(1) by simp
qed

theorem partialUpdateOrder_strips_request_body_witness:
  "body (req (snd (partialUpdateOrder sample_env
       (world_of (JObj [(''total'', JNum 6), (''addedBy'', JStr ''mallory'')])
          (JStr ''000000000000000000000000'') [order1])))) = JObj [(''total'', JNum 6)]"
proof -
  let ?kvs = "[(''total'', JNum 6), (''addedBy'', JStr ''mallory'')]"
  let ?w = "world_of (JObj ?kvs) (JStr ''000000000000000000000000'') [order1]"
  have 1: "body (req ?w) = JObj ?kvs" by (simp add: world_of_def)
  have 2: "''addedBy'' \<in> fst ` set ?kvs" by simp
  show ?thesis
    using partialUpdateOrder_strips_request_body [OF 1 2, of sample_env] by simp
qed

section \<open>The catch at the boundary\<close>

















end
